theory Spec2Isabelle
  imports Complex_Main "HOL-Library.Sublist"
begin

section \<open>Data model (package models)\<close>

text \<open>
  Go strings are modelled as HOL strings.  The structs of the models package become
  records; \<open>Element\<close> is recursive (an element holds its child elements) and is
  therefore a datatype with one selector per struct field.  A nil slice and an empty
  slice are both the empty list (the code only ever takes their \<open>len\<close> and ranges
  over them).
\<close>

record Binding =
  bindStrength :: string
  bindValueSet :: string
  bindURL :: string

record Extension =
  extName :: string
  extURL :: string
  extContext :: string
  extType :: string
  extCardinality :: string
  extDescription :: string

datatype Element = Element
  (Name: string)
  (Flags: "string list")
  (Cardinality: string)
  (Type: string)
  (TypeRef: string)
  (Description: string)
  (Usage: string)
  (Notes: string)
  (Binding: "Binding option")
  (Elements: "Element list")
  (Extensions: "Extension list")

record ResourceDefinition =
  resResourceType :: string
  resName :: string
  resFlags :: "string list"
  resType :: string
  resDescription :: string
  resElements :: "Element list"
  resExtensions :: "Extension list"

record FlatElement =
  feElement :: Element
  Depth :: int
  IsLast :: bool
  ParentLasts :: "bool list"
  Path :: string

subsection \<open>Flatten\<close>

text \<open>
  \<open>newParentLasts\<close> of \<open>flattenElements\<close>: a fresh slice of length
  \<open>len(parentLasts)+1\<close> (all false), the old vector copied into its front, and the
  last cell set to \<open>parentIsLast\<close>.
\<close>

definition newParentLasts :: "bool list \<Rightarrow> bool \<Rightarrow> bool list" where
  "newParentLasts parentLasts parentIsLast =
     (parentLasts @ replicate 1 False)[length parentLasts := parentIsLast]"

text \<open>
  The rows appended by the inner loop of \<open>flattenElements\<close>
  (\<open>for j, ext := range elem.Extensions\<close>); \<open>isLast\<close> is the flag of the owning
  element among its siblings.
\<close>

definition elementExtensionRows ::
  "Extension list \<Rightarrow> int \<Rightarrow> bool \<Rightarrow> bool list \<Rightarrow> string \<Rightarrow> FlatElement list" where
  "elementExtensionRows exts depth isLast npl path =
     map (\<lambda>(j, ext).
       \<lparr> feElement = Element (extName ext) [] (extCardinality ext) (extType ext) []
                       (extDescription ext) [] [] None [] [],
         Depth = depth + 1,
         IsLast = (int j = int (length exts) - 1 \<and> isLast),
         ParentLasts = npl,
         Path = path @ ''.'' @ extName ext \<rparr>) (enumerate 0 exts)"

text \<open>
  The loop \<open>for i, elem := range elements\<close> of \<open>flattenElements\<close>, as a recursion
  over the elements still to visit: \<open>i\<close> is the loop index of the first of them and
  \<open>n\<close> is \<open>len(elements)\<close>.  The rows are returned in the order in which the code
  appends them to \<open>*result\<close>.
\<close>

fun flattenLoop ::
  "nat \<Rightarrow> nat \<Rightarrow> Element list \<Rightarrow> int \<Rightarrow> bool list \<Rightarrow> string \<Rightarrow> bool \<Rightarrow> FlatElement list" where
  "flattenLoop i n [] depth parentLasts parentPath parentIsLast = []"
| "flattenLoop i n (Element nm fl ca ty tr de us no bi es xs # rest)
       depth parentLasts parentPath parentIsLast =
     (let elem = Element nm fl ca ty tr de us no bi es xs;
          isLast = (int i = int n - 1);
          path = parentPath @ ''.'' @ nm;
          npl = newParentLasts parentLasts parentIsLast
      in \<lparr> feElement = elem,
           Depth = depth,
           IsLast = (isLast \<and> length xs = 0),
           ParentLasts = take (length npl - 1) npl,
           Path = path \<rparr>
         # (if length es > 0
            then flattenLoop 0 (length es) es (depth + 1) npl path (isLast \<and> length xs = 0)
            else [])
         @ elementExtensionRows xs depth isLast npl path
         @ flattenLoop (Suc i) n rest depth parentLasts parentPath parentIsLast)"

definition flattenElements ::
  "Element list \<Rightarrow> int \<Rightarrow> bool list \<Rightarrow> string \<Rightarrow> bool \<Rightarrow> FlatElement list" where
  "flattenElements elements depth parentLasts parentPath parentIsLast =
     flattenLoop 0 (length elements) elements depth parentLasts parentPath parentIsLast"

definition rootExtensionRows :: "ResourceDefinition \<Rightarrow> FlatElement list" where
  "rootExtensionRows r =
     map (\<lambda>(i, ext).
       \<lparr> feElement = Element (extName ext) [] [] (extType ext) []
                       (extDescription ext) [] [] None [] [],
         Depth = 1,
         IsLast = (int i = int (length (resExtensions r)) - 1),
         ParentLasts = [length (resElements r) = 0],
         Path = extContext ext \<rparr>) (enumerate 0 (resExtensions r))"

definition Flatten :: "ResourceDefinition \<Rightarrow> FlatElement list" where
  "Flatten r =
     \<lparr> feElement = Element (resName r) (resFlags r) [] (resType r) []
                     (resDescription r) [] [] None [] [],
       Depth = 0,
       IsLast = (length (resElements r) = 0 \<and> length (resExtensions r) = 0),
       ParentLasts = [],
       Path = resName r \<rparr>
     # flattenElements (resElements r) 1 [] (resName r) False
     @ rootExtensionRows r"


section \<open>Text measurement (renderer/text.go)\<close>

text \<open>
  \<open>font.MeasureString\<close> belongs to an external font library, so the measurement is a
  parameter: a function from strings to widths.  \<open>WrapText\<close> only compares widths, so
  the width type is any linear order; \<open>TruncateText\<close> also subtracts and compares
  with zero.  In the functions of this section a \<open>char\<close> stands for one rune
  (a code point in U+0000..U+00FF), so that \<open>[]rune(text)\<close> is the string itself.
\<close>

text \<open>\<open>unicode.IsSpace\<close> on that range, as \<open>strings.Fields\<close> uses it.\<close>

definition isSpace :: "char \<Rightarrow> bool" where
  "isSpace c = (c \<in> set [CHR 0x09, CHR 0x0A, CHR 0x0B, CHR 0x0C, CHR 0x0D, CHR 0x20,
                          CHR 0x85, CHR 0xA0])"

text \<open>
  \<open>strings.Fields\<close> (Go standard library): the maximal runs of non-space runes, in
  order.  \<open>fieldsFrom cur s\<close> scans \<open>s\<close> with \<open>cur\<close> the field read so far.
\<close>

fun fieldsFrom :: "string \<Rightarrow> string \<Rightarrow> string list" where
  "fieldsFrom cur [] = (if cur = [] then [] else [cur])"
| "fieldsFrom cur (c # cs) =
     (if isSpace c then (if cur = [] then fieldsFrom [] cs else cur # fieldsFrom [] cs)
      else fieldsFrom (cur @ [c]) cs)"

definition Fields :: "string \<Rightarrow> string list" where
  "Fields s = fieldsFrom [] s"

text \<open>The loop \<open>for _, word := range words[1:]\<close> of \<open>WrapText\<close> and its final append.\<close>

fun wrapLoop :: "(string \<Rightarrow> 'w::linorder) \<Rightarrow> 'w \<Rightarrow> string list \<Rightarrow> string \<Rightarrow> string list \<Rightarrow> string list" where
  "wrapLoop m maxWidth lines currentLine [] = lines @ [currentLine]"
| "wrapLoop m maxWidth lines currentLine (word # ws) =
     (let testLine = currentLine @ '' '' @ word
      in if m testLine \<le> maxWidth
         then wrapLoop m maxWidth lines testLine ws
         else wrapLoop m maxWidth (lines @ [currentLine]) word ws)"

definition WrapText :: "(string \<Rightarrow> 'w::linorder) \<Rightarrow> string \<Rightarrow> 'w \<Rightarrow> string list" where
  "WrapText m text maxWidth =
     (if text = [] then [[]]
      else if m text \<le> maxWidth then [text]
      else (case Fields text of
              [] \<Rightarrow> [[]]
            | w # ws \<Rightarrow> wrapLoop m maxWidth [] w ws))"

text \<open>
  The binary search of \<open>TruncateText\<close>.  \<open>low\<close> and \<open>high\<close> stay within
  \<open>0..len(runes)\<close>, so they are naturals and \<open>runes[:mid]\<close> is \<open>take mid runes\<close>.
\<close>

function truncateSearch :: "(string \<Rightarrow> 'w::linorder) \<Rightarrow> string \<Rightarrow> 'w \<Rightarrow> nat \<Rightarrow> nat \<Rightarrow> nat" where
  "truncateSearch m runes availableWidth low high =
     (if low < high
      then (let mid = (low + high + 1) div 2
            in if m (take mid runes) \<le> availableWidth
               then truncateSearch m runes availableWidth mid high
               else truncateSearch m runes availableWidth low (mid - 1))
      else low)"
  by pat_completeness auto
termination
  by (relation "measure (\<lambda>(m, runes, availableWidth, low, high). high - low)") auto

declare truncateSearch.simps [simp del]

definition TruncateText :: "(string \<Rightarrow> 'w::{linorder,minus,zero}) \<Rightarrow> string \<Rightarrow> 'w \<Rightarrow> string" where
  "TruncateText m text maxWidth =
     (if text = [] then []
      else if m text \<le> maxWidth then text
      else (let ellipsis = ''...'';
                ellipsisWidth = m ellipsis;
                availableWidth = maxWidth - ellipsisWidth
            in if availableWidth \<le> 0 then ellipsis
               else (let low = truncateSearch m text availableWidth 0 (length text)
                     in if low = 0 then ellipsis else take low text @ ellipsis)))"

section \<open>Icon selection (renderer/icons.go)\<close>

definition IconResource :: string where "IconResource = ''resource''"
definition IconBackboneElement :: string where "IconBackboneElement = ''backbone''"
definition IconElement :: string where "IconElement = ''element''"
definition IconExtension :: string where "IconExtension = ''extension''"
definition IconChoice :: string where "IconChoice = ''choice''"
definition IconReference :: string where "IconReference = ''reference''"

text \<open>\<open>strings.HasPrefix\<close> and \<open>strings.HasSuffix\<close>.\<close>

definition HasPrefix :: "string \<Rightarrow> string \<Rightarrow> bool" where
  "HasPrefix s pre = prefix pre s"

definition HasSuffix :: "string \<Rightarrow> string \<Rightarrow> bool" where
  "HasSuffix s suf = suffix suf s"

definition GetIconTypeForElement :: "string \<Rightarrow> bool \<Rightarrow> bool \<Rightarrow> string" where
  "GetIconTypeForElement elementType isRoot hasChildren =
     (if isRoot then IconResource
      else if elementType = ''BackboneElement'' then IconBackboneElement
      else if elementType = ''Extension'' then IconExtension
      else if HasSuffix elementType ''[x]'' then IconChoice
      else if HasPrefix elementType ''Reference'' then IconReference
      else if hasChildren then IconBackboneElement
      else IconElement)"

section \<open>Description text (buildDescriptionText)\<close>

definition UnusedElementLabel :: string where
  "UnusedElementLabel = ''Not used''"

definition buildDescriptionText :: "FlatElement \<Rightarrow> string \<times> bool" where
  "buildDescriptionText fe =
     (let descText = Description (feElement fe);
          isBold = False;
          (descText, isBold) =
            (if Usage (feElement fe) = ''not-used''
             then ((if descText = [] then UnusedElementLabel else descText), isBold)
             else if Usage (feElement fe) = ''todo''
             then ((if \<not> HasPrefix descText ''TODO'' then ''TODO: '' @ descText else descText),
                   True)
             else (descText, isBold));
          descText =
            (if Notes (feElement fe) \<noteq> [] \<and> Usage (feElement fe) \<noteq> ''not-used''
             then (if descText \<noteq> [] then descText @ '' - '' else descText)
                  @ Notes (feElement fe)
             else descText)
      in (descText, isBold))"


section \<open>Configuration and layout constants (package renderer)\<close>

text \<open>
  \<open>float64\<close> quantities of the layout are idealised as real numbers: the model keeps
  every operation and comparison of the code in the code's order, without rounding.
\<close>

record TreeLineStyle =
  tlColor :: string
  tlWidth :: real
  IndentPx :: real

record TextMeasurer =
  face :: "string \<Rightarrow> real"
  fontSize :: real

definition MeasureString :: "TextMeasurer \<Rightarrow> string \<Rightarrow> real" where
  "MeasureString tm s = face tm s"

record SVGConfig =
  FontFamily :: string
  FontSize :: real
  HeaderFontSize :: real
  MinRowHeight :: real
  LineHeight :: real
  HeaderHeight :: real
  TitleHeight :: real
  IconSize :: real
  Padding :: real
  TreeStyle :: TreeLineStyle
  NameColWidth :: real
  FlagsColWidth :: real
  CardinalityColWidth :: real
  TypeColWidth :: real
  DescriptionColWidth :: real
  HeaderBgColor :: string
  HeaderTextColor :: string
  RowBgColor :: string
  AltRowBgColor :: string
  BorderColor :: string
  LinkColor :: string
  TextColor :: string
  NotUsedColor :: string
  TodoColor :: string
  textMeasurer :: "TextMeasurer option"
  CompressedResource :: string

definition DefaultTreeStyle :: TreeLineStyle where
  "DefaultTreeStyle = \<lparr> tlColor = ''#CCCCCC'', tlWidth = 1, IndentPx = 20 \<rparr>"

definition DefaultConfig :: SVGConfig where
  "DefaultConfig =
     \<lparr> FontFamily = ''Arial, sans-serif'', FontSize = 12, HeaderFontSize = 13,
       MinRowHeight = 26, LineHeight = 16, HeaderHeight = 28, TitleHeight = 32,
       IconSize = 14, Padding = 8, TreeStyle = DefaultTreeStyle,
       NameColWidth = 180, FlagsColWidth = 50, CardinalityColWidth = 55,
       TypeColWidth = 220, DescriptionColWidth = 400,
       HeaderBgColor = ''#F0F0F0'', HeaderTextColor = ''#333333'', RowBgColor = ''#FFFFFF'',
       AltRowBgColor = ''#F8F8F8'', BorderColor = ''#CCCCCC'', LinkColor = ''#005EB8'',
       TextColor = ''#333333'', NotUsedColor = ''#999999'', TodoColor = ''#FF6600'',
       textMeasurer = None, CompressedResource = [] \<rparr>"

definition RowTopMargin :: real where "RowTopMargin = 4"
definition RowBottomMargin :: real where "RowBottomMargin = 6"
definition MinNameColWidth :: real where "MinNameColWidth = 180"
definition MaxNameColWidth :: real where "MaxNameColWidth = 300"
definition FontRenderingBuffer :: real where "FontRenderingBuffer = 15"
definition BoldTextWidthFactor :: real where "BoldTextWidthFactor = 90 / 100"
definition IconPaddingRight :: real where "IconPaddingRight = 8"
definition IconSpaceInMeasurement :: real where "IconSpaceInMeasurement = 12"
definition TreeHorizontalGap :: real where "TreeHorizontalGap = 2"
definition SVGHeightPadding :: real where "SVGHeightPadding = 2"

section \<open>Tree connector lines (RenderTreeLines)\<close>

text \<open>
  Reading a slice out of range panics in Go.  \<open>sliceIndex\<close> is the checked read.
\<close>

datatype panic = IndexOutOfRange int nat

definition sliceIndex :: "'a list \<Rightarrow> int \<Rightarrow> panic + 'a" where
  "sliceIndex xs i =
     (if 0 \<le> i \<and> i < int (length xs) then Inr (xs ! nat i)
      else Inl (IndexOutOfRange i (length xs)))"

text \<open>One \<open><line .../>\<close> element: the arguments of its \<open>fmt.Sprintf\<close>.\<close>

record SvgLine =
  lineX1 :: real
  lineY1 :: real
  lineX2 :: real
  lineY2 :: real
  lineStroke :: string
  lineStrokeWidth :: real

text \<open>
  The loop \<open>for i := 0; i < depth-1; i++\<close> of \<open>RenderTreeLines\<close>, from index \<open>i\<close>
  on.  Besides the lines it writes, the model returns the indices at which
  \<open>parentLasts\<close> is read, in order; \<open>&&\<close> evaluates its right operand only when the
  left one holds.
\<close>

function treeLinesLoop ::
  "int \<Rightarrow> real \<Rightarrow> real \<Rightarrow> real \<Rightarrow> int \<Rightarrow> bool list \<Rightarrow> TreeLineStyle
     \<Rightarrow> panic + (int list \<times> SvgLine list)" where
  "treeLinesLoop i x y rowHeight depth parentLasts style =
     (if i < depth - 1
      then (if i < int (length parentLasts)
            then (case sliceIndex parentLasts i of
                    Inl p \<Rightarrow> Inl p
                  | Inr b \<Rightarrow>
                      (case treeLinesLoop (i + 1) x y rowHeight depth parentLasts style of
                         Inl p \<Rightarrow> Inl p
                       | Inr (reads, ls) \<Rightarrow>
                           Inr (i # reads,
                                (if \<not> b
                                 then (let lineX = x + real_of_int i * IndentPx style
                                                     + IndentPx style / 2
                                       in [\<lparr> lineX1 = lineX, lineY1 = y, lineX2 = lineX,
                                             lineY2 = y + rowHeight, lineStroke = tlColor style,
                                             lineStrokeWidth = tlWidth style \<rparr>])
                                 else []) @ ls)))
            else treeLinesLoop (i + 1) x y rowHeight depth parentLasts style)
      else Inr ([], []))"
  by pat_completeness auto
termination
  by (relation "measure (\<lambda>(i, x, y, rowHeight, depth, parentLasts, style). nat (depth - 1 - i))")
     auto

declare treeLinesLoop.simps [simp del]

definition RenderTreeLines ::
  "real \<Rightarrow> real \<Rightarrow> real \<Rightarrow> real \<Rightarrow> int \<Rightarrow> bool list \<Rightarrow> bool \<Rightarrow> TreeLineStyle
     \<Rightarrow> panic + (int list \<times> SvgLine list)" where
  "RenderTreeLines x y rowHeight firstLineY depth parentLasts isLast style =
     (if depth = 0 then Inr ([], [])
      else (case treeLinesLoop 0 x y rowHeight depth parentLasts style of
              Inl p \<Rightarrow> Inl p
            | Inr (reads, ls) \<Rightarrow>
                (let connectorX = x + real_of_int (depth - 1) * IndentPx style
                                    + IndentPx style / 2;
                     connector =
                       (if isLast
                        then \<lparr> lineX1 = connectorX, lineY1 = y, lineX2 = connectorX,
                               lineY2 = firstLineY, lineStroke = tlColor style,
                               lineStrokeWidth = tlWidth style \<rparr>
                        else \<lparr> lineX1 = connectorX, lineY1 = y, lineX2 = connectorX,
                               lineY2 = y + rowHeight, lineStroke = tlColor style,
                               lineStrokeWidth = tlWidth style \<rparr>);
                     horizontalEndX = x + real_of_int depth * IndentPx style - TreeHorizontalGap
                 in Inr (reads,
                         ls @ [connector,
                               \<lparr> lineX1 = connectorX, lineY1 = firstLineY,
                                 lineX2 = horizontalEndX, lineY2 = firstLineY,
                                 lineStroke = tlColor style,
                                 lineStrokeWidth = tlWidth style \<rparr>]))))"


section \<open>Layout engine and emitter (Render)\<close>

record ColumnWidths =
  cwName :: real
  cwFlags :: real
  cwCardinality :: real
  cwType :: real
  cwDescription :: real

definition Total :: "ColumnWidths \<Rightarrow> real" where
  "Total cw = cwName cw + cwFlags cw + cwCardinality cw + cwType cw + cwDescription cw"

record RowData =
  rowElement :: FlatElement
  NameLines :: "string list"
  TypeLines :: "string list"
  DescLines :: "string list"
  RowHeight :: real
  IsRoot :: bool
  IsAlt :: bool

definition calculateNameColumnWidth ::
  "ResourceDefinition \<Rightarrow> TextMeasurer \<Rightarrow> SVGConfig \<Rightarrow> real" where
  "calculateNameColumnWidth resource tm config =
     (let flatElements = Flatten resource;
          maxNameWidth =
            foldl (\<lambda>maxNameWidth fe.
                     (let indentWidth = real_of_int (Depth fe) * IndentPx (TreeStyle config);
                          nameWidth = indentWidth + IconSize config + IconSpaceInMeasurement
                                        + MeasureString tm (Name (feElement fe))
                      in if nameWidth > maxNameWidth then nameWidth else maxNameWidth))
                  (MeasureString tm (resName resource)) flatElements;
          width = maxNameWidth + Padding config * 2;
          width = (if width < MinNameColWidth then MinNameColWidth else width);
          width = (if width > MaxNameColWidth then MaxNameColWidth else width)
      in width)"

definition calculateRowHeight :: "RowData \<Rightarrow> SVGConfig \<Rightarrow> real" where
  "calculateRowHeight row config =
     (let maxLines = length (NameLines row);
          maxLines = (if length (TypeLines row) > maxLines then length (TypeLines row)
                      else maxLines);
          maxLines = (if length (DescLines row) > maxLines then length (DescLines row)
                      else maxLines);
          height = RowTopMargin + real maxLines * LineHeight config + RowBottomMargin
      in if height < MinRowHeight config then MinRowHeight config else height)"

definition prepareRow :: "FlatElement \<Rightarrow> nat \<Rightarrow> TextMeasurer \<Rightarrow> SVGConfig \<Rightarrow> RowData" where
  "prepareRow fe index tm config =
     (let row = \<lparr> rowElement = fe, NameLines = [], TypeLines = [], DescLines = [],
                  RowHeight = 0, IsRoot = (index = 0), IsAlt = (index mod 2 = 1) \<rparr>;
          nameIndent = real_of_int (Depth fe) * IndentPx (TreeStyle config) + IconSize config
                         + IconPaddingRight;
          availableNameWidth = NameColWidth config - nameIndent - Padding config
                                 - FontRenderingBuffer;
          availableTypeWidth = TypeColWidth config - Padding config * 2 - FontRenderingBuffer;
          availableDescWidth = DescriptionColWidth config - Padding config * 2
                                 - FontRenderingBuffer;
          row = row\<lparr> NameLines := [Name (feElement fe)] \<rparr>;
          row = (if MeasureString tm (Name (feElement fe)) > availableNameWidth
                 then row\<lparr> NameLines :=
                            WrapText (MeasureString tm) (Name (feElement fe)) availableNameWidth \<rparr>
                 else row);
          row = row\<lparr> TypeLines :=
                       WrapText (MeasureString tm) (Type (feElement fe)) availableTypeWidth \<rparr>;
          (descText, isBold) = buildDescriptionText fe;
          descWidth = (if isBold then availableDescWidth * BoldTextWidthFactor
                       else availableDescWidth);
          row = row\<lparr> DescLines := WrapText (MeasureString tm) descText descWidth \<rparr>;
          row = row\<lparr> RowHeight := calculateRowHeight row config \<rparr>
      in row)"

definition prepareRows :: "FlatElement list \<Rightarrow> TextMeasurer \<Rightarrow> SVGConfig \<Rightarrow> RowData list" where
  "prepareRows flatElements tm config =
     map (\<lambda>(i, fe). prepareRow fe i tm config) (enumerate 0 flatElements)"

definition calculateTotalHeight :: "RowData list \<Rightarrow> SVGConfig \<Rightarrow> real" where
  "calculateTotalHeight rows config =
     (let contentHeight = foldl (\<lambda>contentHeight row. contentHeight + RowHeight row) 0 rows
      in TitleHeight config + HeaderHeight config + contentHeight + SVGHeightPadding)"

text \<open>
  The emitted markup is represented by the values it is formatted from: the number
  formatting of \<open>fmt.Sprintf\<close> and the literal markup templates are not modelled.
  A diagram carries the \<open>width\<close> and \<open>height\<close> attributes written by
  \<open>buildSVGHeader\<close>, the clip rectangles of \<open>buildClipPaths\<close>, the width of the title
  bar, the position of the header row, and one entry per data row in the order
  \<open>buildDataRows\<close> writes them.  A row entry carries its vertical offset, the row data
  and configuration its cells are formatted from, its background colour, its tree
  lines and its icon.  The fallback document is the literal text of the source.
\<close>

record ClipPath =
  clipName :: string
  clipX :: real
  clipWidth :: real
  clipHeight :: real

record SvgRow =
  srY :: real
  srTotalWidth :: real
  srData :: RowData
  srBgColor :: string
  srTreeLines :: "SvgLine list"
  srIconType :: string
  srIconX :: real
  srIconY :: real

record Diagram =
  svgWidth :: real
  svgHeight :: real
  svgClipPaths :: "ClipPath list"
  svgTitleBarWidth :: real
  svgHeaderRowY :: real
  svgRows :: "SvgRow list"
  svgConfig :: SVGConfig

datatype Document = Literal string | Markup Diagram

definition buildClipPaths :: "ColumnWidths \<Rightarrow> real \<Rightarrow> SVGConfig \<Rightarrow> ClipPath list" where
  "buildClipPaths colWidths totalHeight config =
     (let colStarts = [0,
                       cwName colWidths,
                       cwName colWidths + cwFlags colWidths,
                       cwName colWidths + cwFlags colWidths + cwCardinality colWidths,
                       cwName colWidths + cwFlags colWidths + cwCardinality colWidths
                         + cwType colWidths];
          widths = [cwName colWidths, cwFlags colWidths, cwCardinality colWidths,
                    cwType colWidths, cwDescription colWidths];
          names = [''name'', ''flags'', ''card'', ''type'', ''desc'']
      in map (\<lambda>(i, name). \<lparr> clipName = name, clipX = colStarts ! i, clipWidth = widths ! i,
                              clipHeight = totalHeight \<rparr>) (enumerate 0 names))"

text \<open>
  \<open>renderDataRowWrapped\<close> with \<open>renderRowBackground\<close> and \<open>renderTreeAndIcon\<close>;
  the index log of \<open>RenderTreeLines\<close> is dropped here, as the code returns only the
  markup.
\<close>

definition renderDataRowWrapped :: "RowData \<Rightarrow> SVGConfig \<Rightarrow> real \<Rightarrow> real \<Rightarrow> panic + SvgRow" where
  "renderDataRowWrapped row config y totalWidth =
     (let bgColor = (if IsAlt row then AltRowBgColor config else RowBgColor config);
          x = Padding config;
          firstLineCenterY = y + RowTopMargin + FontSize config / 2;
          fe = rowElement row
      in (case RenderTreeLines x y (RowHeight row) firstLineCenterY (Depth fe)
                 (ParentLasts fe) (IsLast fe) (TreeStyle config) of
            Inl p \<Rightarrow> Inl p
          | Inr (reads, treeLines) \<Rightarrow>
              (let iconX = x + real_of_int (Depth fe) * IndentPx (TreeStyle config);
                   iconY = firstLineCenterY - IconSize config / 2;
                   hasChildren = (length (Elements (feElement fe)) > 0);
                   iconType = GetIconTypeForElement (Type (feElement fe)) (IsRoot row)
                                hasChildren
               in Inr \<lparr> srY = y, srTotalWidth = totalWidth, srData = row,
                        srBgColor = bgColor, srTreeLines = treeLines,
                        srIconType = iconType, srIconX = iconX, srIconY = iconY \<rparr>)))"

text \<open>The loop of \<open>buildDataRows\<close>, with \<open>currentY\<close> passed along.\<close>

fun buildDataRowsFrom :: "RowData list \<Rightarrow> real \<Rightarrow> real \<Rightarrow> SVGConfig \<Rightarrow> panic + SvgRow list" where
  "buildDataRowsFrom [] currentY totalWidth config = Inr []"
| "buildDataRowsFrom (row # rows) currentY totalWidth config =
     (case renderDataRowWrapped row config currentY totalWidth of
        Inl p \<Rightarrow> Inl p
      | Inr r \<Rightarrow>
          (case buildDataRowsFrom rows (currentY + RowHeight row) totalWidth config of
             Inl p \<Rightarrow> Inl p
           | Inr rs \<Rightarrow> Inr (r # rs)))"

definition buildDataRows :: "RowData list \<Rightarrow> real \<Rightarrow> SVGConfig \<Rightarrow> panic + SvgRow list" where
  "buildDataRows rows totalWidth config =
     buildDataRowsFrom rows (TitleHeight config + HeaderHeight config) totalWidth config"

definition buildSVG :: "RowData list \<Rightarrow> ColumnWidths \<Rightarrow> real \<Rightarrow> SVGConfig \<Rightarrow> panic + Document" where
  "buildSVG rows colWidths totalHeight config =
     (let totalWidth = Total colWidths
      in (case buildDataRows rows totalWidth config of
            Inl p \<Rightarrow> Inl p
          | Inr dataRows \<Rightarrow>
              Inr (Markup \<lparr> svgWidth = totalWidth, svgHeight = totalHeight,
                            svgClipPaths = buildClipPaths colWidths totalHeight config,
                            svgTitleBarWidth = totalWidth,
                            svgHeaderRowY = TitleHeight config,
                            svgRows = dataRows,
                            svgConfig = config \<rparr>)))"

definition renderFallback :: Document where
  \<open>renderFallback = Literal
     (''<?xml version="1.0" encoding="UTF-8"?>'' @ [CHR 0x0A] @
      ''<svg xmlns="http://www.w3.org/2000/svg" width="400" height="100">'' @ [CHR 0x0A] @
      ''<text x="10" y="50" font-family="Arial" font-size="14">Error: Could not load font for text measurement</text>'' @ [CHR 0x0A] @
      ''</svg>'')\<close>

text \<open>
  \<open>Render\<close>.  \<open>NewTextMeasurer\<close> parses a font with an external library; it is the
  parameter \<open>newTextMeasurer\<close>, which returns an error (\<open>Inl\<close>) or a measurer.
  A panic of the emitter would end \<open>Render\<close> without a document; it is the \<open>Inl\<close> of
  the result.
\<close>

definition Render ::
  "(real \<Rightarrow> string + TextMeasurer) \<Rightarrow> ResourceDefinition \<Rightarrow> SVGConfig \<Rightarrow> panic + Document" where
  "Render newTextMeasurer resource config =
     (case newTextMeasurer (FontSize config) of
        Inl err \<Rightarrow> Inr renderFallback
      | Inr tm \<Rightarrow>
          (let config = config\<lparr> textMeasurer := Some tm \<rparr>;
               config = config\<lparr> NameColWidth := calculateNameColumnWidth resource tm config \<rparr>;
               rows = prepareRows (Flatten resource) tm config;
               colWidths = \<lparr> cwName = NameColWidth config, cwFlags = FlagsColWidth config,
                             cwCardinality = CardinalityColWidth config,
                             cwType = TypeColWidth config,
                             cwDescription = DescriptionColWidth config \<rparr>;
               totalHeight = calculateTotalHeight rows config
           in buildSVG rows colWidths totalHeight config))"

section \<open>Counting the tree\<close>

text \<open>
  The nodes and the extensions of a tree, counted by recursion over it: an element
  counts itself and the nodes below it; its extensions are its own and those below it.
\<close>

fun nodeCount :: "Element \<Rightarrow> nat" where
  "nodeCount (Element nm fl ca ty tr de us no bi es xs) = 1 + sum_list (map nodeCount es)"

fun extensionCount :: "Element \<Rightarrow> nat" where
  "extensionCount (Element nm fl ca ty tr de us no bi es xs) =
     length xs + sum_list (map extensionCount es)"

definition resourceNodeCount :: "ResourceDefinition \<Rightarrow> nat" where
  "resourceNodeCount r = 1 + sum_list (map nodeCount (resElements r))"

definition resourceExtensionCount :: "ResourceDefinition \<Rightarrow> nat" where
  "resourceExtensionCount r =
     length (resExtensions r) + sum_list (map extensionCount (resElements r))"

section \<open>Example inputs\<close>

definition leafElement :: "string \<Rightarrow> string \<Rightarrow> Element" where
  "leafElement nm ty = Element nm [] [] ty [] [] [] [] None [] []"

definition exampleExtension :: "string \<Rightarrow> Extension" where
  "exampleExtension nm =
     \<lparr> extName = nm, extURL = ''http://example.org/ext'', extContext = ''Patient'',
       extType = ''string'', extCardinality = ''0..1'', extDescription = [] \<rparr>"

text \<open>A root with one child element and two root-level extensions.\<close>

definition patientWithExtensions :: ResourceDefinition where
  "patientWithExtensions =
     \<lparr> resResourceType = [], resName = ''Patient'', resFlags = [],
       resType = ''DomainResource'', resDescription = [],
       resElements = [leafElement ''id'' ''id''],
       resExtensions = [exampleExtension ''race'', exampleExtension ''birthsex''] \<rparr>"

text \<open>A root with a backbone child that has a child of its own.\<close>

definition patientWithContact :: ResourceDefinition where
  "patientWithContact =
     \<lparr> resResourceType = [], resName = ''Patient'', resFlags = [],
       resType = ''DomainResource'', resDescription = [],
       resElements = [Element ''contact'' [] ''0..*'' ''BackboneElement'' [] [] [] [] None
                        [leafElement ''name'' ''HumanName''] []],
       resExtensions = [] \<rparr>"

definition contactNameRow :: FlatElement where
  "contactNameRow =
     \<lparr> feElement = leafElement ''name'' ''HumanName'', Depth = 2, IsLast = True,
       ParentLasts = [False], Path = ''Patient.contact.name'' \<rparr>"

text \<open>A depth-1 row with the given description, usage and notes.\<close>

definition statusRow :: "string \<Rightarrow> string \<Rightarrow> string \<Rightarrow> FlatElement" where
  "statusRow description usage notes =
     \<lparr> feElement = Element ''status'' [] ''0..1'' ''code'' [] description usage notes None [] [],
       Depth = 1, IsLast = True, ParentLasts = [], Path = ''Patient.status'' \<rparr>"

text \<open>
  A measurer for a font in which every rune advances by 7 units: the width of a
  string is the sum of its glyph advances.
\<close>

definition fixedAdvance :: "string \<Rightarrow> int" where
  "fixedAdvance s = sum_list (map (\<lambda>c. 7) s)"

text \<open>
  Two font initialisations: one that succeeds with the fixed-advance measurer and one
  that fails.
\<close>

definition fixedAdvanceMeasurer :: "real \<Rightarrow> string + TextMeasurer" where
  "fixedAdvanceMeasurer sz =
     Inr \<lparr> face = (\<lambda>s. real_of_int (fixedAdvance s)), fontSize = sz \<rparr>"

definition failingMeasurer :: "real \<Rightarrow> string + TextMeasurer" where
  "failingMeasurer sz = Inl ''invalid font''"

section \<open>Row count of Flatten\<close>

lemma length_elementExtensionRows:
  "length (elementExtensionRows xs depth isLast npl path) = length xs"
  by (simp add: elementExtensionRows_def)

lemma length_flattenLoop:
  "length (flattenLoop i n es depth pl pp pil) =
     sum_list (map nodeCount es) + sum_list (map extensionCount es)"
proof (induction i n es depth pl pp pil rule: flattenLoop.induct)
  case (1 i n depth parentLasts parentPath parentIsLast)
  show ?case by simp
next
  case (2 i n nm fl ca ty tr de us no bi es xs rest depth parentLasts parentPath parentIsLast)
  show ?case
  proof (cases "es = []")
    case True
    with 2 show ?thesis by (simp add: Let_def length_elementExtensionRows)
  next
    case False
    with 2 show ?thesis by (simp add: Let_def length_elementExtensionRows)
  qed
qed

text \<open>
  C6: for every input tree, \<open>Flatten\<close> returns one row for the root and for each nested
  element, and one row for each extension at every level: the number of rows is the
  number of nodes plus the number of extensions.
\<close>

theorem Flatten_row_count:
  "length (Flatten r) = resourceNodeCount r + resourceExtensionCount r"
  by (simp add: Flatten_def flattenElements_def rootExtensionRows_def length_flattenLoop
      resourceNodeCount_def resourceExtensionCount_def)

section \<open>The "is last" flag next to root-level extensions\<close>

text \<open>
  C1: the claim says that, when the root has child elements and two extensions, the two
  extension rows follow all child rows at depth 1, the second one is marked "is last",
  and the last child row before them is not.  Evaluating \<open>Flatten\<close> on a root with the
  child \<open>id\<close> and the extensions \<open>race\<close> and \<open>birthsex\<close>: the extension rows are at
  depth 1 after the child row and \<open>birthsex\<close> is marked, but the child row \<open>id\<close> is
  marked "is last" as well, although two rows of its level follow it.
\<close>

theorem Flatten_last_child_before_root_extensions:
  "map (\<lambda>row. (Name (feElement row), Depth row, IsLast row)) (Flatten patientWithExtensions)
     = [(''Patient'', 0, False), (''id'', 1, True), (''race'', 1, False),
        (''birthsex'', 1, True)]"
  by (simp add: Flatten_def patientWithExtensions_def leafElement_def exampleExtension_def
      flattenElements_def rootExtensionRows_def elementExtensionRows_def newParentLasts_def
      enumerate_eq_zip)

section \<open>Icon selection\<close>

text \<open>
  C5: icon selection returns one of the six icon names and follows the precedence: the
  root row gets "resource"; else the type "BackboneElement" gets "backbone"; else the
  type "Extension" gets "extension"; else a type ending in "[x]" gets "choice"; else a
  type beginning with "Reference" gets "reference"; else a node with a child gets
  "backbone"; otherwise "element".  A non-root type that begins with "Reference" and
  ends in "[x]" gets "choice".
\<close>

theorem GetIconTypeForElement_precedence:
  "(isRoot \<longrightarrow> GetIconTypeForElement t isRoot hasChildren = ''resource'')
    \<and> (\<not> isRoot \<and> t = ''BackboneElement''
         \<longrightarrow> GetIconTypeForElement t isRoot hasChildren = ''backbone'')
    \<and> (\<not> isRoot \<and> t = ''Extension''
         \<longrightarrow> GetIconTypeForElement t isRoot hasChildren = ''extension'')
    \<and> (\<not> isRoot \<and> t \<noteq> ''BackboneElement'' \<and> t \<noteq> ''Extension'' \<and> HasSuffix t ''[x]''
         \<longrightarrow> GetIconTypeForElement t isRoot hasChildren = ''choice'')
    \<and> (\<not> isRoot \<and> t \<noteq> ''BackboneElement'' \<and> t \<noteq> ''Extension'' \<and> \<not> HasSuffix t ''[x]''
         \<and> HasPrefix t ''Reference''
         \<longrightarrow> GetIconTypeForElement t isRoot hasChildren = ''reference'')
    \<and> (\<not> isRoot \<and> t \<noteq> ''BackboneElement'' \<and> t \<noteq> ''Extension'' \<and> \<not> HasSuffix t ''[x]''
         \<and> \<not> HasPrefix t ''Reference'' \<and> hasChildren
         \<longrightarrow> GetIconTypeForElement t isRoot hasChildren = ''backbone'')
    \<and> (\<not> isRoot \<and> t \<noteq> ''BackboneElement'' \<and> t \<noteq> ''Extension'' \<and> \<not> HasSuffix t ''[x]''
         \<and> \<not> HasPrefix t ''Reference'' \<and> \<not> hasChildren
         \<longrightarrow> GetIconTypeForElement t isRoot hasChildren = ''element'')
    \<and> (\<not> isRoot \<and> HasPrefix t ''Reference'' \<and> HasSuffix t ''[x]''
         \<longrightarrow> GetIconTypeForElement t isRoot hasChildren = ''choice'')
    \<and> GetIconTypeForElement t isRoot hasChildren
          \<in> set [''resource'', ''backbone'', ''element'', ''extension'', ''choice'',
                  ''reference'']"
proof -
  have notBE: "HasPrefix t ''Reference'' \<Longrightarrow> t \<noteq> ''BackboneElement'' \<and> t \<noteq> ''Extension''"
    by (auto simp: HasPrefix_def)
  show ?thesis
    unfolding GetIconTypeForElement_def IconResource_def IconBackboneElement_def
      IconElement_def IconExtension_def IconChoice_def IconReference_def
    using notBE by auto
qed

theorem GetIconTypeForElement_precedence_witness:
  "GetIconTypeForElement ''DomainResource'' True False = ''resource''
   \<and> GetIconTypeForElement ''BackboneElement'' False False = ''backbone''
   \<and> GetIconTypeForElement ''Extension'' False True = ''extension''
   \<and> GetIconTypeForElement ''value[x]'' False False = ''choice''
   \<and> GetIconTypeForElement ''Reference(Patient)'' False False = ''reference''
   \<and> GetIconTypeForElement ''Address'' False True = ''backbone''
   \<and> GetIconTypeForElement ''id'' False False = ''element''
   \<and> HasPrefix ''Reference[x]'' ''Reference'' \<and> HasSuffix ''Reference[x]'' ''[x]''
   \<and> GetIconTypeForElement ''Reference[x]'' False True = ''choice''"
  using GetIconTypeForElement_precedence [of True "''DomainResource''" False]
    GetIconTypeForElement_precedence [of False "''BackboneElement''" False]
    GetIconTypeForElement_precedence [of False "''Extension''" True]
    GetIconTypeForElement_precedence [of False "''value[x]''" False]
    GetIconTypeForElement_precedence [of False "''Reference(Patient)''" False]
    GetIconTypeForElement_precedence [of False "''Address''" True]
    GetIconTypeForElement_precedence [of False "''id''" False]
    GetIconTypeForElement_precedence [of False "''Reference[x]''" True]
  by (simp add: HasPrefix_def HasSuffix_def suffix_to_prefix)

section \<open>Description cell text\<close>

text \<open>
  C4, as stated, fails: with usage "todo" and the description "TODO later" the marker
  "TODO:" is absent, yet no prefix is added, because the code tests for the prefix
  "TODO" without the colon.
\<close>

theorem buildDescriptionText_todo_without_colon:
  "Usage (feElement (statusRow ''TODO later'' ''todo'' [])) = ''todo''
   \<and> \<not> HasPrefix (Description (feElement (statusRow ''TODO later'' ''todo'' []))) ''TODO:''
   \<and> buildDescriptionText (statusRow ''TODO later'' ''todo'' []) = (''TODO later'', True)
   \<and> \<not> HasPrefix (fst (buildDescriptionText (statusRow ''TODO later'' ''todo'' []))) ''TODO:''"
  by (simp add: buildDescriptionText_def statusRow_def HasPrefix_def)

text \<open>
  C4, amended: the description cell text starts as the element's own description; with
  usage "not-used" an empty description is replaced by "Not used" and notes are never
  appended; with usage "todo" the cell is bold and the text is prefixed with "TODO: "
  unless it already begins with "TODO" (with or without a colon); with any other usage
  the text is the description and the cell is not bold; and when the notes are non-empty
  and the usage is not "not-used" they are appended after " - ", or stand alone when the
  text so far is empty.
\<close>

theorem buildDescriptionText_cases:
  "(Usage (feElement fe) = ''not-used'' \<and> Description (feElement fe) = []
      \<longrightarrow> buildDescriptionText fe = (''Not used'', False))
   \<and> (Usage (feElement fe) = ''not-used'' \<and> Description (feElement fe) \<noteq> []
      \<longrightarrow> buildDescriptionText fe = (Description (feElement fe), False))
   \<and> (Usage (feElement fe) = ''todo'' \<and> HasPrefix (Description (feElement fe)) ''TODO''
        \<and> Notes (feElement fe) = []
      \<longrightarrow> buildDescriptionText fe = (Description (feElement fe), True))
   \<and> (Usage (feElement fe) = ''todo'' \<and> HasPrefix (Description (feElement fe)) ''TODO''
        \<and> Notes (feElement fe) \<noteq> []
      \<longrightarrow> buildDescriptionText fe
            = (Description (feElement fe) @ '' - '' @ Notes (feElement fe), True))
   \<and> (Usage (feElement fe) = ''todo'' \<and> \<not> HasPrefix (Description (feElement fe)) ''TODO''
        \<and> Notes (feElement fe) = []
      \<longrightarrow> buildDescriptionText fe = (''TODO: '' @ Description (feElement fe), True))
   \<and> (Usage (feElement fe) = ''todo'' \<and> \<not> HasPrefix (Description (feElement fe)) ''TODO''
        \<and> Notes (feElement fe) \<noteq> []
      \<longrightarrow> buildDescriptionText fe
            = (''TODO: '' @ Description (feElement fe) @ '' - '' @ Notes (feElement fe), True))
   \<and> (Usage (feElement fe) \<noteq> ''not-used'' \<and> Usage (feElement fe) \<noteq> ''todo''
        \<and> Notes (feElement fe) = []
      \<longrightarrow> buildDescriptionText fe = (Description (feElement fe), False))
   \<and> (Usage (feElement fe) \<noteq> ''not-used'' \<and> Usage (feElement fe) \<noteq> ''todo''
        \<and> Notes (feElement fe) \<noteq> [] \<and> Description (feElement fe) = []
      \<longrightarrow> buildDescriptionText fe = (Notes (feElement fe), False))
   \<and> (Usage (feElement fe) \<noteq> ''not-used'' \<and> Usage (feElement fe) \<noteq> ''todo''
        \<and> Notes (feElement fe) \<noteq> [] \<and> Description (feElement fe) \<noteq> []
      \<longrightarrow> buildDescriptionText fe
            = (Description (feElement fe) @ '' - '' @ Notes (feElement fe), False))"
proof -
  have todoPrefix: "HasPrefix (Description (feElement fe)) ''TODO''
                     \<Longrightarrow> Description (feElement fe) \<noteq> []"
    by (auto simp: HasPrefix_def)
  show ?thesis
    using todoPrefix
    by (auto simp: buildDescriptionText_def UnusedElementLabel_def Let_def)
qed

theorem buildDescriptionText_cases_witness:
  "buildDescriptionText (statusRow [] ''not-used'' ''ignored'') = (''Not used'', False)
   \<and> buildDescriptionText (statusRow ''Legacy'' ''not-used'' []) = (''Legacy'', False)
   \<and> buildDescriptionText (statusRow ''TODO: check'' ''todo'' []) = (''TODO: check'', True)
   \<and> buildDescriptionText (statusRow ''TODO later'' ''todo'' ''soon'')
       = (''TODO later - soon'', True)
   \<and> buildDescriptionText (statusRow ''fix this'' ''todo'' []) = (''TODO: fix this'', True)
   \<and> buildDescriptionText (statusRow ''fix this'' ''todo'' ''ask the owner'')
       = (''TODO: fix this - ask the owner'', True)
   \<and> buildDescriptionText (statusRow ''The status'' ''used'' []) = (''The status'', False)
   \<and> buildDescriptionText (statusRow [] ''used'' ''bound'') = (''bound'', False)
   \<and> buildDescriptionText (statusRow ''The status'' [] ''bound'')
       = (''The status - bound'', False)"
  using buildDescriptionText_cases [of "statusRow [] ''not-used'' ''ignored''"]
    buildDescriptionText_cases [of "statusRow ''Legacy'' ''not-used'' []"]
    buildDescriptionText_cases [of "statusRow ''TODO: check'' ''todo'' []"]
    buildDescriptionText_cases [of "statusRow ''TODO later'' ''todo'' ''soon''"]
    buildDescriptionText_cases [of "statusRow ''fix this'' ''todo'' []"]
    buildDescriptionText_cases [of "statusRow ''fix this'' ''todo'' ''ask the owner''"]
    buildDescriptionText_cases [of "statusRow ''The status'' ''used'' []"]
    buildDescriptionText_cases [of "statusRow [] ''used'' ''bound''"]
    buildDescriptionText_cases [of "statusRow ''The status'' [] ''bound''"]
  by (simp add: statusRow_def HasPrefix_def)

section \<open>The ancestor vector and the tree lines\<close>

lemma newParentLasts_eq: "newParentLasts pl b = pl @ [b]"
  by (simp add: newParentLasts_def)

lemma ParentLasts_elementExtensionRows:
  "row \<in> set (elementExtensionRows xs depth isLast npl path) \<Longrightarrow>
     ParentLasts row = npl \<and> Depth row = depth + 1"
  by (auto simp: elementExtensionRows_def)

lemma ParentLasts_flattenLoop:
  "int (length pl) < depth \<Longrightarrow> row \<in> set (flattenLoop i n es depth pl pp pil) \<Longrightarrow>
     int (length (ParentLasts row)) < Depth row"
proof (induction i n es depth pl pp pil rule: flattenLoop.induct)
  case (1 i n depth parentLasts parentPath parentIsLast)
  then show ?case by simp
next
  case (2 i n nm fl ca ty tr de us no bi es xs rest depth parentLasts parentPath parentIsLast)
  let ?npl = "newParentLasts parentLasts parentIsLast"
  let ?path = "parentPath @ ''.'' @ nm"
  let ?isLast = "int i = int n - 1"
  from "2.prems"(2) consider
      (own) "row = \<lparr> feElement = Element nm fl ca ty tr de us no bi es xs, Depth = depth,
                     IsLast = (?isLast \<and> length xs = 0),
                     ParentLasts = take (length ?npl - 1) ?npl, Path = ?path \<rparr>"
    | (sub) "length es > 0"
            "row \<in> set (flattenLoop 0 (length es) es (depth + 1) ?npl ?path
                           (?isLast \<and> length xs = 0))"
    | (ext) "row \<in> set (elementExtensionRows xs depth ?isLast ?npl ?path)"
    | (rest) "row \<in> set (flattenLoop (Suc i) n rest depth parentLasts parentPath parentIsLast)"
    by (auto simp: Let_def split: if_splits)
  then show ?case
  proof cases
    case own
    with "2.prems"(1) show ?thesis by (simp add: newParentLasts_eq)
  next
    case sub
    have "int (length ?npl) < depth + 1"
      using "2.prems"(1) by (simp add: newParentLasts_eq)
    with "2.IH"(1)[OF refl refl refl refl sub(1)] sub(2) show ?thesis by simp
  next
    case ext
    with ParentLasts_elementExtensionRows[OF ext] "2.prems"(1) show ?thesis
      by (simp add: newParentLasts_eq)
  next
    case rest
    with "2.IH"(2)[OF refl refl refl refl "2.prems"(1)] show ?thesis by simp
  qed
qed

lemma ParentLasts_Flatten:
  assumes "row \<in> set (Flatten r)"
  shows "int (length (ParentLasts row)) \<le> Depth row"
proof -
  from assms consider (root) "Depth row = 0" "ParentLasts row = []"
    | (elem) "row \<in> set (flattenLoop 0 (length (resElements r)) (resElements r) 1 []
                            (resName r) False)"
    | (ext) "row \<in> set (rootExtensionRows r)"
    by (auto simp: Flatten_def flattenElements_def)
  then show ?thesis
  proof cases
    case root
    then show ?thesis by simp
  next
    case elem
    from ParentLasts_flattenLoop[OF _ elem] show ?thesis by simp
  next
    case ext
    then show ?thesis by (auto simp: rootExtensionRows_def)
  qed
qed

lemma treeLinesLoop_reads:
  "0 \<le> i \<Longrightarrow>
   \<exists>reads ls. treeLinesLoop i x y rowHeight depth pl style = Inr (reads, ls)
      \<and> (\<forall>j \<in> set reads. 0 \<le> j \<and> j < depth - 1 \<and> j < int (length pl))"
proof (induction i x y rowHeight depth pl style rule: treeLinesLoop.induct)
  case (1 i x y rowHeight depth parentLasts style)
  show ?case
  proof (cases "i < depth - 1")
    case False
    then show ?thesis by (subst treeLinesLoop.simps) simp
  next
    case inloop: True
    show ?thesis
    proof (cases "i < int (length parentLasts)")
      case False
      from "1.IH"(2)[OF inloop False] "1.prems"
      obtain reads ls where
        "treeLinesLoop (i + 1) x y rowHeight depth parentLasts style = Inr (reads, ls)"
        "\<forall>j \<in> set reads. 0 \<le> j \<and> j < depth - 1 \<and> j < int (length parentLasts)"
        by auto
      with inloop False show ?thesis by (subst treeLinesLoop.simps) simp
    next
      case True
      with "1.prems" have idx: "sliceIndex parentLasts i = Inr (parentLasts ! nat i)"
        by (simp add: sliceIndex_def)
      from "1.IH"(1)[OF inloop True idx] "1.prems"
      obtain reads ls where
        "treeLinesLoop (i + 1) x y rowHeight depth parentLasts style = Inr (reads, ls)"
        "\<forall>j \<in> set reads. 0 \<le> j \<and> j < depth - 1 \<and> j < int (length parentLasts)"
        by auto
      with inloop True idx "1.prems" show ?thesis
        by (subst treeLinesLoop.simps) simp
    qed
  qed
qed

lemma RenderTreeLines_reads:
  "\<exists>reads ls. RenderTreeLines x y rowHeight firstLineY depth pl isLast style = Inr (reads, ls)
      \<and> (\<forall>j \<in> set reads. 0 \<le> j \<and> j < depth - 1 \<and> j < int (length pl))"
proof -
  obtain reads ls where
    "treeLinesLoop 0 x y rowHeight depth pl style = Inr (reads, ls)"
    "\<forall>j \<in> set reads. 0 \<le> j \<and> j < depth - 1 \<and> j < int (length pl)"
    using treeLinesLoop_reads[of 0] by blast
  then show ?thesis by (simp add: RenderTreeLines_def Let_def)
qed

text \<open>
  C10: for every row produced by \<open>Flatten\<close>, the ancestor vector is no longer than the
  row's depth, and \<open>RenderTreeLines\<close> on that row ends without an out-of-range read:
  it returns its lines, and every index at which it read the vector is at least 0,
  less than depth - 1 and less than the vector's length.
\<close>

theorem Flatten_rows_tree_lines_in_bounds:
  "\<forall>row \<in> set (Flatten r).
     int (length (ParentLasts row)) \<le> Depth row
     \<and> (\<exists>reads ls.
          RenderTreeLines x y rowHeight firstLineY (Depth row) (ParentLasts row) (IsLast row)
            style = Inr (reads, ls)
          \<and> (\<forall>j \<in> set reads.
                0 \<le> j \<and> j < Depth row - 1 \<and> j < int (length (ParentLasts row))))"
  using ParentLasts_Flatten RenderTreeLines_reads by blast

theorem Flatten_rows_tree_lines_in_bounds_witness:
  "contactNameRow \<in> set (Flatten patientWithContact)
   \<and> int (length (ParentLasts contactNameRow)) \<le> Depth contactNameRow
   \<and> (\<exists>reads ls.
        RenderTreeLines 8 60 26 70 (Depth contactNameRow) (ParentLasts contactNameRow)
          (IsLast contactNameRow) DefaultTreeStyle = Inr (reads, ls)
        \<and> (\<forall>j \<in> set reads. 0 \<le> j \<and> j < Depth contactNameRow - 1
                             \<and> j < int (length (ParentLasts contactNameRow))))"
proof -
  have mem: "contactNameRow \<in> set (Flatten patientWithContact)"
    by (simp add: Flatten_def patientWithContact_def leafElement_def contactNameRow_def
        flattenElements_def rootExtensionRows_def elementExtensionRows_def newParentLasts_def
        enumerate_eq_zip)
  from mem Flatten_rows_tree_lines_in_bounds [of patientWithContact 8 60 26 70 DefaultTreeStyle]
  show ?thesis by blast
qed

section \<open>Line wrapping\<close>

lemma fieldsFrom_word:
  "\<forall>c \<in> set cur. \<not> isSpace c \<Longrightarrow> w \<in> set (fieldsFrom cur s) \<Longrightarrow>
     w \<noteq> [] \<and> (\<forall>c \<in> set w. \<not> isSpace c)"
proof (induction s arbitrary: cur)
  case Nil
  then show ?case by (auto split: if_splits)
next
  case (Cons c cs)
  show ?case
  proof (cases "isSpace c")
    case True
    with Cons.prems Cons.IH[of "[]"] show ?thesis by (auto split: if_splits)
  next
    case False
    with Cons.prems Cons.IH[of "cur @ [c]"] show ?thesis by auto
  qed
qed

lemma Fields_word:
  "w \<in> set (Fields s) \<Longrightarrow> w \<noteq> [] \<and> (\<forall>c \<in> set w. \<not> isSpace c)"
  unfolding Fields_def using fieldsFrom_word[of "[]" w s] by simp

lemma wrapLoop_lines:
  "l \<in> set (wrapLoop m W lines cur ws) \<Longrightarrow>
     l \<in> set lines \<or> l = cur \<or> l \<in> set ws \<or> m l \<le> W"
proof (induction ws arbitrary: lines cur)
  case Nil
  then show ?case by auto
next
  case (Cons word ws)
  show ?case
  proof (cases "m (cur @ '' '' @ word) \<le> W")
    case True
    with Cons.prems have "l \<in> set (wrapLoop m W lines (cur @ '' '' @ word) ws)"
      by (simp add: Let_def)
    from Cons.IH[OF this] True show ?thesis by auto
  next
    case False
    with Cons.prems have "l \<in> set (wrapLoop m W (lines @ [cur]) word ws)"
      by (simp add: Let_def)
    from Cons.IH[OF this] show ?thesis by auto
  qed
qed

lemma fixedAdvance_length: "fixedAdvance s = 7 * int (length s)"
  by (induction s) (simp_all add: fixedAdvance_def)

text \<open>
  C2, as stated, fails: for the empty text and a width below the width of the empty
  string, \<open>WrapText\<close> returns the one empty line, which is wider than the budget and
  is not a word.
\<close>

theorem WrapText_empty_text_negative_width:
  "WrapText fixedAdvance [] (- 1) = [[]]
   \<and> \<not> fixedAdvance [] \<le> - 1
   \<and> [] \<notin> set (Fields [])"
  by (simp add: WrapText_def fixedAdvance_def Fields_def)

text \<open>
  C2, amended: every line returned by \<open>WrapText\<close> has measured width at most the
  budget, except a line that is one whole word of the text (a field of
  \<open>strings.Fields\<close>: non-empty, without white space) wider than the budget, and except
  the single empty line returned for a text without any word.
\<close>

theorem WrapText_line_widths:
  "\<forall>line \<in> set (WrapText m txt maxWidth).
      m line \<le> maxWidth
      \<or> (line \<in> set (Fields txt) \<and> line \<noteq> [] \<and> (\<forall>c \<in> set line. \<not> isSpace c)
          \<and> \<not> m line \<le> maxWidth)
      \<or> (line = [] \<and> Fields txt = [])"
proof
  fix line
  assume mem: "line \<in> set (WrapText m txt maxWidth)"
  show "m line \<le> maxWidth
      \<or> (line \<in> set (Fields txt) \<and> line \<noteq> [] \<and> (\<forall>c \<in> set line. \<not> isSpace c)
          \<and> \<not> m line \<le> maxWidth)
      \<or> (line = [] \<and> Fields txt = [])"
  proof (cases "txt = []")
    case True
    with mem show ?thesis by (simp add: WrapText_def Fields_def)
  next
    case nonempty: False
    show ?thesis
    proof (cases "m txt \<le> maxWidth")
      case True
      with mem nonempty show ?thesis by (simp add: WrapText_def)
    next
      case wide: False
      show ?thesis
      proof (cases "Fields txt")
        case Nil
        with mem nonempty wide show ?thesis by (simp add: WrapText_def)
      next
        case (Cons w ws)
        with mem nonempty wide have "line \<in> set (wrapLoop m maxWidth [] w ws)"
          by (simp add: WrapText_def)
        from wrapLoop_lines[OF this] have "line \<in> set (Fields txt) \<or> m line \<le> maxWidth"
          using Cons by auto
        with Fields_word[of line "txt"] show ?thesis by blast
      qed
    qed
  qed
qed

theorem WrapText_line_widths_witness:
  "WrapText fixedAdvance ''the quick brown fox extraordinarily'' 70
     = [''the quick'', ''brown fox'', ''extraordinarily'']
   \<and> fixedAdvance ''brown fox'' \<le> 70
   \<and> ''extraordinarily'' \<in> set (Fields ''the quick brown fox extraordinarily'')
   \<and> \<not> fixedAdvance ''extraordinarily'' \<le> 70"
proof -
  have ev: "WrapText fixedAdvance ''the quick brown fox extraordinarily'' 70
              = [''the quick'', ''brown fox'', ''extraordinarily'']"
    by (simp add: WrapText_def fixedAdvance_length Fields_def isSpace_def Let_def)
  have wide: "\<not> fixedAdvance ''extraordinarily'' \<le> 70"
    by (simp add: fixedAdvance_length)
  have "''extraordinarily''
          \<in> set (WrapText fixedAdvance ''the quick brown fox extraordinarily'' 70)"
    by (simp add: ev)
  with WrapText_line_widths [of fixedAdvance "''the quick brown fox extraordinarily''" 70]
  have "fixedAdvance ''extraordinarily'' \<le> 70
        \<or> ''extraordinarily'' \<in> set (Fields ''the quick brown fox extraordinarily'')"
    by blast
  with wide ev show ?thesis by (simp add: fixedAdvance_length)
qed

section \<open>Truncation with an ellipsis\<close>

lemma truncateSearch_longest:
  "\<forall>i j. 0 < i \<and> i \<le> j \<and> j \<le> length runes \<and> m (take j runes) \<le> a
            \<longrightarrow> m (take i runes) \<le> a \<Longrightarrow>
         low \<le> high \<Longrightarrow> high \<le> length runes \<Longrightarrow>
         (0 < low \<longrightarrow> m (take low runes) \<le> a) \<Longrightarrow>
         (\<forall>j. high < j \<and> j \<le> length runes \<longrightarrow> \<not> m (take j runes) \<le> a) \<Longrightarrow>
         truncateSearch m runes a low high \<le> length runes
         \<and> (0 < truncateSearch m runes a low high
              \<longrightarrow> m (take (truncateSearch m runes a low high) runes) \<le> a)
         \<and> (\<forall>j. truncateSearch m runes a low high < j \<and> j \<le> length runes
                \<longrightarrow> \<not> m (take j runes) \<le> a)"
proof (induction m runes a low high rule: truncateSearch.induct)
  case (1 m runes a low high)
  show ?case
  proof (cases "low < high")
    case False
    have eq: "truncateSearch m runes a low high = low"
      using False by (subst truncateSearch.simps) simp
    from False "1.prems" have "low = high" by simp
    with "1.prems" eq show ?thesis by simp
  next
    case lt: True
    let ?mid = "(low + high + 1) div 2"
    have mid: "low < ?mid" "?mid \<le> high" using lt by auto
    show ?thesis
    proof (cases "m (take ?mid runes) \<le> a")
      case True
      have eq: "truncateSearch m runes a low high = truncateSearch m runes a ?mid high"
        using lt True by (subst truncateSearch.simps) (simp add: Let_def)
      have "truncateSearch m runes a ?mid high \<le> length runes
         \<and> (0 < truncateSearch m runes a ?mid high
              \<longrightarrow> m (take (truncateSearch m runes a ?mid high) runes) \<le> a)
         \<and> (\<forall>j. truncateSearch m runes a ?mid high < j \<and> j \<le> length runes
                \<longrightarrow> \<not> m (take j runes) \<le> a)"
        using "1.IH"(1)[OF lt refl True "1.prems"(1) mid(2) "1.prems"(3)] True "1.prems"(5)
        by simp
      with eq show ?thesis by simp
    next
      case False
      have eq: "truncateSearch m runes a low high = truncateSearch m runes a low (?mid - 1)"
        using lt False by (subst truncateSearch.simps) (simp add: Let_def)
      have above: "\<forall>j. ?mid - 1 < j \<and> j \<le> length runes \<longrightarrow> \<not> m (take j runes) \<le> a"
      proof (intro allI impI)
        fix j assume j: "?mid - 1 < j \<and> j \<le> length runes"
        show "\<not> m (take j runes) \<le> a"
        proof
          assume fits: "m (take j runes) \<le> a"
          from j mid have "0 < ?mid \<and> ?mid \<le> j \<and> j \<le> length runes" by linarith
          with fits "1.prems"(1) have "m (take ?mid runes) \<le> a" by blast
          with False show False by simp
        qed
      qed
      have "truncateSearch m runes a low (?mid - 1) \<le> length runes
         \<and> (0 < truncateSearch m runes a low (?mid - 1)
              \<longrightarrow> m (take (truncateSearch m runes a low (?mid - 1)) runes) \<le> a)
         \<and> (\<forall>j. truncateSearch m runes a low (?mid - 1) < j \<and> j \<le> length runes
                \<longrightarrow> \<not> m (take j runes) \<le> a)"
        using "1.IH"(2)[OF lt refl False "1.prems"(1) _ _ "1.prems"(4) above] mid "1.prems"(3)
        by simp
      with eq show ?thesis by simp
    qed
  qed
qed


text \<open>
  C3, as stated, fails: the empty text is returned unchanged whatever the width, also
  when its measured width exceeds \<open>maxWidth\<close>, where the claim asks for "...".
\<close>

theorem TruncateText_empty_text_negative_width:
  "TruncateText fixedAdvance [] (- 1) = []
   \<and> \<not> fixedAdvance [] \<le> - 1
   \<and> TruncateText fixedAdvance [] (- 1) \<noteq> ''...''"
  by (simp add: TruncateText_def fixedAdvance_def)

text \<open>
  C3, amended: the empty text is returned unchanged; a text whose measured width is at
  most \<open>maxWidth\<close> is returned unchanged; otherwise, for a non-empty text, the width
  of "..." is reserved: when nothing remains (\<open>maxWidth - measure("...") \<le> 0\<close>) the
  result is "..."; else, for a measurer under which shortening a prefix that fits
  gives a prefix that fits, the result is the longest prefix (by rune count) with
  \<open>measure(p) \<le> maxWidth - measure("...")\<close> followed by "...", and just "..." when no
  non-empty prefix fits (\<open>k = 0\<close> below).
\<close>

theorem TruncateText_longest_prefix:
  "TruncateText m [] maxWidth = []
   \<and> (m txt \<le> maxWidth \<longrightarrow> TruncateText m txt maxWidth = txt)
   \<and> (txt \<noteq> [] \<and> \<not> m txt \<le> maxWidth \<and> maxWidth - m ''...'' \<le> 0
        \<longrightarrow> TruncateText m txt maxWidth = ''...'')
   \<and> (txt \<noteq> [] \<and> \<not> m txt \<le> maxWidth \<and> \<not> maxWidth - m ''...'' \<le> 0
        \<and> (\<forall>i j. 0 < i \<and> i \<le> j \<and> j \<le> length txt
                   \<and> m (take j txt) \<le> maxWidth - m ''...''
                 \<longrightarrow> m (take i txt) \<le> maxWidth - m ''...'')
        \<longrightarrow> (\<exists>k \<le> length txt.
               TruncateText m txt maxWidth = take k txt @ ''...''
               \<and> (0 < k \<longrightarrow> m (take k txt) \<le> maxWidth - m ''...'')
               \<and> (\<forall>j. k < j \<and> j \<le> length txt
                      \<longrightarrow> \<not> m (take j txt) \<le> maxWidth - m ''...'')))"
proof (intro conjI impI)
  show "TruncateText m [] maxWidth = []" by (simp add: TruncateText_def)
next
  assume "m txt \<le> maxWidth"
  then show "TruncateText m txt maxWidth = txt" by (simp add: TruncateText_def)
next
  assume "txt \<noteq> [] \<and> \<not> m txt \<le> maxWidth \<and> maxWidth - m ''...'' \<le> 0"
  then show "TruncateText m txt maxWidth = ''...''" by (simp add: TruncateText_def)
next
  let ?a = "maxWidth - m ''...''"
  let ?k = "truncateSearch m txt ?a 0 (length txt)"
  assume h: "txt \<noteq> [] \<and> \<not> m txt \<le> maxWidth \<and> \<not> ?a \<le> 0
        \<and> (\<forall>i j. 0 < i \<and> i \<le> j \<and> j \<le> length txt \<and> m (take j txt) \<le> ?a
                 \<longrightarrow> m (take i txt) \<le> ?a)"
  then have mono: "\<forall>i j. 0 < i \<and> i \<le> j \<and> j \<le> length txt \<and> m (take j txt) \<le> ?a
                 \<longrightarrow> m (take i txt) \<le> ?a" by blast
  have k: "?k \<le> length txt \<and> (0 < ?k \<longrightarrow> m (take ?k txt) \<le> ?a)
         \<and> (\<forall>j. ?k < j \<and> j \<le> length txt \<longrightarrow> \<not> m (take j txt) \<le> ?a)"
  proof -
    have top: "\<forall>j. length txt < j \<and> j \<le> length txt \<longrightarrow> \<not> m (take j txt) \<le> ?a"
      by auto
    have low: "(0::nat) < 0 \<longrightarrow> m (take 0 txt) \<le> ?a" by simp
    from truncateSearch_longest[OF mono _ _ low top] show ?thesis by simp
  qed
  have res: "TruncateText m txt maxWidth = take ?k txt @ ''...''"
    using h by (simp add: TruncateText_def Let_def)
  from k res show "\<exists>k \<le> length txt.
               TruncateText m txt maxWidth = take k txt @ ''...''
               \<and> (0 < k \<longrightarrow> m (take k txt) \<le> ?a)
               \<and> (\<forall>j. k < j \<and> j \<le> length txt \<longrightarrow> \<not> m (take j txt) \<le> ?a)"
    by (intro exI[of _ ?k]) simp
qed


theorem TruncateText_longest_prefix_witness:
  "fixedAdvance ''Observation'' \<le> 80
   \<and> TruncateText fixedAdvance ''Observation'' 80 = ''Observation''
   \<and> \<not> fixedAdvance ''Observation'' \<le> 20 \<and> 20 - fixedAdvance ''...'' \<le> 0
   \<and> TruncateText fixedAdvance ''Observation'' 20 = ''...''
   \<and> \<not> fixedAdvance ''Observation'' \<le> 60 \<and> \<not> 60 - fixedAdvance ''...'' \<le> 0
   \<and> (\<exists>k \<le> length ''Observation''.
         TruncateText fixedAdvance ''Observation'' 60 = take k ''Observation'' @ ''...''
         \<and> (0 < k \<longrightarrow> fixedAdvance (take k ''Observation'') \<le> 60 - fixedAdvance ''...'')
         \<and> (\<forall>j. k < j \<and> j \<le> length ''Observation''
                \<longrightarrow> \<not> fixedAdvance (take j ''Observation'') \<le> 60 - fixedAdvance ''...''))"
proof -
  have mono: "\<forall>i j. 0 < i \<and> i \<le> j \<and> j \<le> length ''Observation''
                   \<and> fixedAdvance (take j ''Observation'') \<le> 60 - fixedAdvance ''...''
                 \<longrightarrow> fixedAdvance (take i ''Observation'') \<le> 60 - fixedAdvance ''...''"
    unfolding fixedAdvance_length by auto
  have a: "fixedAdvance ''Observation'' \<le> 80" by (simp add: fixedAdvance_length)
  have b: "\<not> fixedAdvance ''Observation'' \<le> 20 \<and> 20 - fixedAdvance ''...'' \<le> 0"
    by (simp add: fixedAdvance_length)
  have c: "\<not> fixedAdvance ''Observation'' \<le> 60 \<and> \<not> 60 - fixedAdvance ''...'' \<le> 0"
    by (simp add: fixedAdvance_length)
  have ne: "''Observation'' \<noteq> []" by simp
  from TruncateText_longest_prefix [of fixedAdvance 80 "''Observation''"] a
  have r1: "TruncateText fixedAdvance ''Observation'' 80 = ''Observation''" by blast
  from TruncateText_longest_prefix [of fixedAdvance 20 "''Observation''"] b ne
  have r2: "TruncateText fixedAdvance ''Observation'' 20 = ''...''" by blast
  from TruncateText_longest_prefix [of fixedAdvance 60 "''Observation''"] c ne mono
  have r3: "\<exists>k \<le> length ''Observation''.
         TruncateText fixedAdvance ''Observation'' 60 = take k ''Observation'' @ ''...''
         \<and> (0 < k \<longrightarrow> fixedAdvance (take k ''Observation'') \<le> 60 - fixedAdvance ''...'')
         \<and> (\<forall>j. k < j \<and> j \<le> length ''Observation''
                \<longrightarrow> \<not> fixedAdvance (take j ''Observation'') \<le> 60 - fixedAdvance ''...'')"
    by blast
  from a b c r1 r2 r3 show ?thesis by blast
qed

end
